theory Spec2Isabelle
  imports Complex_Main
begin

section \<open>The plateau learning-rate scheduler component\<close>

text \<open>
  A shallow embedding of the class \<open>ReduceLROnPlateau\<close> of
  \<^verbatim>\<open>autoPyTorch/pipeline/components/setup/lr_scheduler/ReduceLROnPlateau.py\<close>:
  its initialiser, \<open>fit\<close>, \<open>transform\<close> and the two static methods
  \<open>get_properties\<close> and \<open>get_hyperparameter_search_space\<close>.

  The object is a record of the five attributes that \<open>__init__\<close> assigns. The two
  attributes annotated \<open>Optional\<close> are options, with \<open>None\<close> for Python's \<open>None\<close>.
  The types of \<open>factor\<close>, \<open>patience\<close>, of the random state and of the scheduler handle
  are parameters: the class stores the first three as they are given and never looks
  inside the fourth.
\<close>

record ('fa, 'pa, 'r, 'h) ReduceLROnPlateau =
  mode :: string
  factor :: 'fa
  patience :: 'pa
  random_state :: "'r option"
  scheduler :: "'h option"

text \<open>
  \<open>__init__\<close> (lines 34 to 47). The call \<open>super().__init__()\<close> runs first; the five
  assignments that follow fix every attribute this class reads. The parameter
  \<open>random_state\<close> defaults to \<open>None\<close>.
\<close>

definition init :: "string \<Rightarrow> 'fa \<Rightarrow> 'pa \<Rightarrow> 'r option \<Rightarrow> ('fa, 'pa, 'r, 'h) ReduceLROnPlateau" where
  "init mode' factor' patience' random_state' =
     \<lparr> mode = mode', factor = factor', patience = patience',
       random_state = random_state', scheduler = None \<rparr>"

subsection \<open>Exceptions and the calls that leave the module\<close>

text \<open>
  \<open>fit\<close> has one \<open>raise\<close> statement of its own (line 64), a \<open>ValueError\<close> with a fixed
  message. It also calls three things that are defined outside the repository and may
  raise themselves: the builtins \<open>float\<close> and \<open>int\<close>, and the constructor
  \<open>torch.optim.lr_scheduler.ReduceLROnPlateau\<close>. An exception of type \<open>'x\<close> that
  escapes one of them passes through \<open>fit\<close> unhandled. The two constructors of
  \<open>exn\<close> keep the raise site apart, as the traceback of a Python exception does.
\<close>

datatype 'x exn =
    ValueError string
  | Propagated 'x

text \<open>
  The three outside calls are taken as parameters. Each returns either the exception
  it raises or its value.
\<close>

record ('fa, 'pa, 'o, 'f, 'i, 'h, 'x) runtime =
  py_float :: "'fa \<Rightarrow> 'x + 'f"
  py_int :: "'pa \<Rightarrow> 'x + 'i"
  lr_scheduler_ReduceLROnPlateau :: "'o \<Rightarrow> string \<Rightarrow> 'f \<Rightarrow> 'i \<Rightarrow> 'x + 'h"

subsection \<open>fit\<close>

text \<open>
  \<open>fit\<close> (lines 49 to 72). \<open>fit_params\<close> is the keyword dictionary. The result is a
  pair: what the call gives back (the exception raised, or the returned object, which
  is \<open>self\<close>), and the state of the object after the call.

  Python evaluates the keyword arguments of the constructor call from left to right:
  \<open>fit_params['optimizer']\<close>, \<open>self.mode\<close>, \<open>float(self.factor)\<close>,
  \<open>int(self.patience)\<close>, and then calls the constructor. The only assignment to
  \<open>self\<close> comes after the constructor has returned.
\<close>

definition fit ::
  "('fa, 'pa, 'o, 'f, 'i, 'h, 'x) runtime \<Rightarrow> ('fa, 'pa, 'r, 'h) ReduceLROnPlateau \<Rightarrow> 'a \<Rightarrow> 'b \<Rightarrow>
   (string \<rightharpoonup> 'o) \<Rightarrow>
   ('x exn + ('fa, 'pa, 'r, 'h) ReduceLROnPlateau) \<times> ('fa, 'pa, 'r, 'h) ReduceLROnPlateau" where
  "fit rt self X y fit_params =
     (case fit_params ''optimizer'' of
        None \<Rightarrow> (Inl (ValueError ''Cannot use scheduler without an optimizer to wrap''), self)
      | Some optimizer \<Rightarrow>
          (case py_float rt (factor self) of
             Inl e \<Rightarrow> (Inl (Propagated e), self)
           | Inr f \<Rightarrow>
               (case py_int rt (patience self) of
                  Inl e \<Rightarrow> (Inl (Propagated e), self)
                | Inr p \<Rightarrow>
                    (case lr_scheduler_ReduceLROnPlateau rt optimizer (mode self) f p of
                       Inl e \<Rightarrow> (Inl (Propagated e), self)
                     | Inr h \<Rightarrow>
                         (let self' = self\<lparr>scheduler := Some h\<rparr>
                          in (Inr self', self'))))))"

subsection \<open>transform and the static methods\<close>

text \<open>\<open>transform\<close> (lines 74 and 75) returns its argument and assigns nothing.\<close>

definition transform :: "('fa, 'pa, 'r, 'h) ReduceLROnPlateau \<Rightarrow> 'a \<Rightarrow> 'a" where
  "transform self X = X"

text \<open>
  \<open>get_properties\<close> (lines 77 to 82) is a static method: it receives no object. The
  argument is an optional dictionary, the result a dictionary of strings.
\<close>

definition get_properties :: "(string \<rightharpoonup> 'd) option \<Rightarrow> (string \<rightharpoonup> string)" where
  "get_properties dataset_properties =
     [''shortname'' \<mapsto> ''CosineAnnealingWarmRestarts'',
      ''name'' \<mapsto> ''Cosine Annealing WarmRestarts'']"

text \<open>
  The hyperparameters of the configuration-space library, with the arguments the source
  passes: a name and the choices; a name, the lower bound, the upper bound and the
  default value. The float literals \<open>0.01\<close>, \<open>0.9\<close> and \<open>0.1\<close> are kept as the
  decimal numbers they are written as.
\<close>

datatype hyperparameter =
    CategoricalHyperparameter string "string list"
  | UniformIntegerHyperparameter string int int int
  | UniformFloatHyperparameter string real real real

fun hp_name :: "hyperparameter \<Rightarrow> string" where
  "hp_name (CategoricalHyperparameter n _) = n"
| "hp_name (UniformIntegerHyperparameter n _ _ _) = n"
| "hp_name (UniformFloatHyperparameter n _ _ _) = n"

text \<open>
  A configuration space holds its hyperparameters by name. The library refuses a
  second hyperparameter of a name it already holds; \<open>add_hyperparameters\<close> adds the
  elements of the list one after the other and stops at the first refusal.
\<close>

type_synonym ConfigurationSpace = "string \<rightharpoonup> hyperparameter"

datatype cs_error = AlreadyInSpace string

definition ConfigurationSpace :: ConfigurationSpace where
  "ConfigurationSpace = Map.empty"

definition add_hyperparameter ::
  "ConfigurationSpace \<Rightarrow> hyperparameter \<Rightarrow> cs_error + ConfigurationSpace" where
  "add_hyperparameter cs hp =
     (case cs (hp_name hp) of
        Some _ \<Rightarrow> Inl (AlreadyInSpace (hp_name hp))
      | None \<Rightarrow> Inr (cs(hp_name hp \<mapsto> hp)))"

fun add_hyperparameters ::
  "ConfigurationSpace \<Rightarrow> hyperparameter list \<Rightarrow> cs_error + ConfigurationSpace" where
  "add_hyperparameters cs [] = Inr cs"
| "add_hyperparameters cs (hp # hps) =
     (case add_hyperparameter cs hp of
        Inl e \<Rightarrow> Inl e
      | Inr cs' \<Rightarrow> add_hyperparameters cs' hps)"

text \<open>\<open>get_hyperparameter_search_space\<close> (lines 84 to 94), a static method as well.\<close>

definition get_hyperparameter_search_space ::
  "(string \<rightharpoonup> 'd) option \<Rightarrow> cs_error + ConfigurationSpace" where
  "get_hyperparameter_search_space dataset_properties =
     (let mode = CategoricalHyperparameter ''mode'' [''min'', ''max''];
          patience = UniformIntegerHyperparameter ''patience'' 5 20 10;
          factor = UniformFloatHyperparameter ''factor'' 0.01 0.9 0.1;
          cs = ConfigurationSpace
      in add_hyperparameters cs [mode, patience, factor])"

subsection \<open>Sequences of method calls\<close>

text \<open>
  A caller holds the object and invokes its methods one after the other. \<open>invoke\<close>
  gives the reply of one call and the state of the object after it: \<open>fit\<close> is the
  only method with an assignment to \<open>self\<close>, and the object stays as it is when a
  call raises. \<open>run\<close> threads the object through a list of calls.
\<close>

datatype ('a, 'b, 'o, 'd) call =
    CallFit 'a 'b "string \<rightharpoonup> 'o"
  | CallTransform 'a
  | CallGetProperties "(string \<rightharpoonup> 'd) option"
  | CallGetHyperparameterSearchSpace "(string \<rightharpoonup> 'd) option"

datatype ('a, 'e, 's) reply =
    FitReply "'e + 's"
  | TransformReply 'a
  | PropertiesReply "string \<rightharpoonup> string"
  | SearchSpaceReply "cs_error + ConfigurationSpace"

fun invoke ::
  "('fa, 'pa, 'o, 'f, 'i, 'h, 'x) runtime \<Rightarrow> ('fa, 'pa, 'r, 'h) ReduceLROnPlateau \<Rightarrow>
   ('a, 'b, 'o, 'd) call \<Rightarrow>
   ('a, 'x exn, ('fa, 'pa, 'r, 'h) ReduceLROnPlateau) reply \<times> ('fa, 'pa, 'r, 'h) ReduceLROnPlateau" where
  "invoke rt self (CallFit X y fit_params) =
     (FitReply (fst (fit rt self X y fit_params)), snd (fit rt self X y fit_params))"
| "invoke rt self (CallTransform X) = (TransformReply (transform self X), self)"
| "invoke rt self (CallGetProperties dp) = (PropertiesReply (get_properties dp), self)"
| "invoke rt self (CallGetHyperparameterSearchSpace dp) =
     (SearchSpaceReply (get_hyperparameter_search_space dp), self)"

fun run ::
  "('fa, 'pa, 'o, 'f, 'i, 'h, 'x) runtime \<Rightarrow> ('fa, 'pa, 'r, 'h) ReduceLROnPlateau \<Rightarrow>
   ('a, 'b, 'o, 'd) call list \<Rightarrow> ('fa, 'pa, 'r, 'h) ReduceLROnPlateau" where
  "run rt self [] = self"
| "run rt self (c # cs) = run rt (snd (invoke rt self c)) cs"

subsection \<open>A runtime to evaluate the model on\<close>

text \<open>
  To run \<open>fit\<close> on concrete inputs the three outside calls need values. In
  \<open>torch_runtime\<close> the factor is a real number and the patience an integer, as the
  annotations of \<open>__init__\<close> say, so that \<open>float\<close> and \<open>int\<close> return their argument.
  The constructor follows the argument checks of the library's
  \<open>ReduceLROnPlateau.__init__\<close>, in their order: a factor of \<open>1.0\<close> or more is
  refused, then an optimizer that is no \<open>Optimizer\<close> instance, then a mode other than
  \<open>min\<close> and \<open>max\<close>. The handle records the arguments it was built from.
\<close>

datatype py_object = Optimizer nat | NoneObject

datatype torch_error =
    FactorShouldBeBelowOne
  | IsNotAnOptimizer py_object
  | ModeIsUnknown string

datatype plateau_scheduler = PlateauScheduler py_object string real int

definition torch_ReduceLROnPlateau ::
  "py_object \<Rightarrow> string \<Rightarrow> real \<Rightarrow> int \<Rightarrow> torch_error + plateau_scheduler" where
  "torch_ReduceLROnPlateau optimizer m f p =
     (if f \<ge> 1 then Inl FactorShouldBeBelowOne
      else (case optimizer of
              NoneObject \<Rightarrow> Inl (IsNotAnOptimizer optimizer)
            | Optimizer _ \<Rightarrow>
                if m = ''min'' \<or> m = ''max'' then Inr (PlateauScheduler optimizer m f p)
                else Inl (ModeIsUnknown m)))"

definition torch_runtime ::
  "(real, int, py_object, real, int, plateau_scheduler, torch_error) runtime" where
  "torch_runtime =
     \<lparr> py_float = Inr, py_int = Inr,
       lr_scheduler_ReduceLROnPlateau = torch_ReduceLROnPlateau \<rparr>"

section \<open>Properties\<close>

subsection \<open>Helper facts about fit\<close>

lemma fit_no_optimizer:
  "fit_params ''optimizer'' = None \<Longrightarrow>
   fit rt self X y fit_params =
     (Inl (ValueError ''Cannot use scheduler without an optimizer to wrap''), self)"
  by (simp add: fit_def)

lemma fit_returns_cases:
  assumes "fst (fit rt self X y fit_params) = Inr s'"
  obtains optimizer f p h where
    "fit_params ''optimizer'' = Some optimizer"
    "py_float rt (factor self) = Inr f"
    "py_int rt (patience self) = Inr p"
    "lr_scheduler_ReduceLROnPlateau rt optimizer (mode self) f p = Inr h"
    "s' = self\<lparr>scheduler := Some h\<rparr>"
    "snd (fit rt self X y fit_params) = self\<lparr>scheduler := Some h\<rparr>"
  using assms
  by (auto simp: fit_def Let_def split: option.splits sum.splits)

lemma fit_state_frame:
  "snd (fit rt self X y fit_params) =
     self\<lparr>scheduler := scheduler (snd (fit rt self X y fit_params))\<rparr>"
  by (simp add: fit_def Let_def split: option.splits sum.splits)

lemma invoke_state_frame:
  "snd (invoke rt self c) = self\<lparr>scheduler := scheduler (snd (invoke rt self c))\<rparr>"
proof (cases c)
  case (CallFit X y fit_params)
  then show ?thesis
    using fit_state_frame [of rt self X y fit_params] by simp
qed simp_all

lemma run_keeps_configuration:
  "mode (run rt self cs) = mode self \<and> factor (run rt self cs) = factor self \<and>
   patience (run rt self cs) = patience self \<and>
   random_state (run rt self cs) = random_state self"
proof (induction cs arbitrary: self)
  case Nil
  show ?case by simp
next
  case (Cons c cs)
  let ?s = "snd (invoke rt self c)"
  have step: "?s = self\<lparr>scheduler := scheduler ?s\<rparr>"
    by (rule invoke_state_frame)
  have "mode ?s = mode self" "factor ?s = factor self"
       "patience ?s = patience self" "random_state ?s = random_state self"
    by (subst step, simp)+
  with Cons.IH [of ?s] show ?case by simp
qed

subsection \<open>fit with an optimizer\<close>

text \<open>
  C1, as the claim states it, fails: a stored configuration that the library's
  constructor refuses makes \<open>fit\<close> raise the library's exception, and no handle is
  stored. With the mode \<open>min\<close>, the factor \<open>1.5\<close>, the patience \<open>10\<close> and an
  optimizer in \<open>fit_params\<close>, the call gives back the constructor's exception and the
  object is as \<open>__init__\<close> left it.
\<close>

theorem fit_refused_configuration:
  "fit torch_runtime (init ''min'' (3 / 2) 10 (None :: nat option)) ([] :: nat list) ([] :: nat list)
     [''optimizer'' \<mapsto> Optimizer 0]
   = (Inl (Propagated FactorShouldBeBelowOne), init ''min'' (3 / 2) 10 None)"
  by (simp add: fit_def torch_runtime_def torch_ReduceLROnPlateau_def init_def)

text \<open>
  C1, amended: for every stored configuration (mode, factor, patience) for which
  \<open>float(factor)\<close>, \<open>int(patience)\<close> and the library's constructor return, \<open>fit\<close>
  with an optimizer in \<open>fit_params\<close> calls the constructor with that optimizer, the
  stored mode, the factor as a float and the patience as an integer, stores the handle
  the constructor returns in the \<open>scheduler\<close> attribute, and returns the object itself:
  the returned object is the object in its state after the call.
\<close>

theorem fit_builds_scheduler:
  assumes "fit_params ''optimizer'' = Some optimizer"
    and "py_float rt (factor self) = Inr f"
    and "py_int rt (patience self) = Inr p"
    and "lr_scheduler_ReduceLROnPlateau rt optimizer (mode self) f p = Inr h"
  shows "fit rt self X y fit_params =
           (Inr (self\<lparr>scheduler := Some h\<rparr>), self\<lparr>scheduler := Some h\<rparr>)"
  using assms by (simp add: fit_def Let_def)

theorem fit_builds_scheduler_witness:
  "[''optimizer'' \<mapsto> Optimizer 0] ''optimizer'' = Some (Optimizer 0) \<and>
   py_float torch_runtime (factor (init ''min'' (1 / 2) 10 (None :: nat option))) = Inr (1 / 2) \<and>
   py_int torch_runtime (patience (init ''min'' (1 / 2) 10 (None :: nat option))) = Inr 10 \<and>
   lr_scheduler_ReduceLROnPlateau torch_runtime (Optimizer 0) ''min'' (1 / 2) 10
     = Inr (PlateauScheduler (Optimizer 0) ''min'' (1 / 2) 10) \<and>
   fit torch_runtime (init ''min'' (1 / 2) 10 (None :: nat option)) ([] :: nat list) ([] :: nat list)
     [''optimizer'' \<mapsto> Optimizer 0]
   = (Inr \<lparr> mode = ''min'', factor = 1 / 2, patience = 10, random_state = None,
            scheduler = Some (PlateauScheduler (Optimizer 0) ''min'' (1 / 2) 10) \<rparr>,
      \<lparr> mode = ''min'', factor = 1 / 2, patience = 10, random_state = None,
        scheduler = Some (PlateauScheduler (Optimizer 0) ''min'' (1 / 2) 10) \<rparr>)"
proof -
  let ?self = "init ''min'' (1 / 2) 10 (None :: nat option)
                 :: (real, int, nat, plateau_scheduler) ReduceLROnPlateau"
  let ?h = "PlateauScheduler (Optimizer 0) ''min'' (1 / 2) 10"
  have k: "[''optimizer'' \<mapsto> Optimizer 0] ''optimizer'' = Some (Optimizer 0)"
    by simp
  have f: "py_float torch_runtime (factor ?self) = Inr (1 / 2)"
    by (simp add: torch_runtime_def init_def)
  have p: "py_int torch_runtime (patience ?self) = Inr 10"
    by (simp add: torch_runtime_def init_def)
  have c: "lr_scheduler_ReduceLROnPlateau torch_runtime (Optimizer 0) (mode ?self) (1 / 2) 10 = Inr ?h"
    by (simp add: torch_runtime_def init_def torch_ReduceLROnPlateau_def)
  have "fit torch_runtime ?self ([] :: nat list) ([] :: nat list) [''optimizer'' \<mapsto> Optimizer 0]
          = (Inr (?self\<lparr>scheduler := Some ?h\<rparr>), ?self\<lparr>scheduler := Some ?h\<rparr>)"
    using k f p c by (rule fit_builds_scheduler)
  with k f p c show ?thesis
    by (simp add: init_def)
qed

subsection \<open>fit without an optimizer\<close>

text \<open>
  C2: \<open>fit\<close> raises its precondition error exactly when the key \<open>optimizer\<close> is not
  in \<open>fit_params\<close>, whatever the mode, the factor, the patience, \<open>X\<close> and \<open>y\<close> are.
  The presence of the key is the only condition \<open>fit\<close> checks: with the key present
  no \<open>ValueError\<close> of \<open>fit\<close>'s own is raised, with any message.
\<close>

theorem fit_raises_iff_no_optimizer:
  "(fst (fit rt self X y fit_params)
      = Inl (ValueError ''Cannot use scheduler without an optimizer to wrap'')
    \<longleftrightarrow> ''optimizer'' \<notin> dom fit_params) \<and>
   ((\<exists>msg. fst (fit rt self X y fit_params) = Inl (ValueError msg))
    \<longleftrightarrow> ''optimizer'' \<notin> dom fit_params)"
  by (auto simp: fit_def Let_def split: option.splits sum.splits)

text \<open>
  C4: a \<open>fit\<close> that fails because \<open>fit_params\<close> has no key \<open>optimizer\<close> raises the
  precondition error and leaves the object exactly as it was; in particular a scheduler
  handle that was absent before the call is absent after it.
\<close>

theorem failed_fit_leaves_unfit:
  assumes "''optimizer'' \<notin> dom fit_params"
  shows "fst (fit rt self X y fit_params)
           = Inl (ValueError ''Cannot use scheduler without an optimizer to wrap'') \<and>
         snd (fit rt self X y fit_params) = self \<and>
         (scheduler self = None \<longrightarrow> scheduler (snd (fit rt self X y fit_params)) = None)"
proof -
  from assms have "fit_params ''optimizer'' = None"
    by (simp add: domIff)
  then show ?thesis
    by (simp add: fit_no_optimizer)
qed

theorem failed_fit_leaves_unfit_witness:
  "''optimizer'' \<notin> dom (Map.empty :: string \<rightharpoonup> py_object) \<and>
   scheduler (init ''max'' (1 / 10) 5 (Some (7 :: nat))
                :: (real, int, nat, plateau_scheduler) ReduceLROnPlateau) = None \<and>
   fst (fit torch_runtime (init ''max'' (1 / 10) 5 (Some (7 :: nat))) [1 :: nat] [2 :: nat] Map.empty)
     = Inl (ValueError ''Cannot use scheduler without an optimizer to wrap'') \<and>
   scheduler (snd (fit torch_runtime (init ''max'' (1 / 10) 5 (Some (7 :: nat)))
                     [1 :: nat] [2 :: nat] Map.empty)) = None"
proof -
  let ?self = "init ''max'' (1 / 10) 5 (Some (7 :: nat))
                 :: (real, int, nat, plateau_scheduler) ReduceLROnPlateau"
  have k: "''optimizer'' \<notin> dom (Map.empty :: string \<rightharpoonup> py_object)"
    by simp
  have u: "scheduler ?self = None"
    by (simp add: init_def)
  from failed_fit_leaves_unfit [OF k, of torch_runtime ?self "[1 :: nat]" "[2 :: nat]"] k u
  show ?thesis
    by simp
qed

subsection \<open>The scheduler handle\<close>

text \<open>
  C3: the scheduler handle is absent in every object that \<open>__init__\<close> has just built,
  whatever the arguments, and present after every \<open>fit\<close> that returns: both in the
  object returned and in the state the call leaves.
\<close>

theorem scheduler_absent_then_present:
  "scheduler (init m f p rs) = None \<and>
   (fst (fit rt self X y fit_params) = Inr s' \<longrightarrow>
      scheduler s' \<noteq> None \<and> scheduler (snd (fit rt self X y fit_params)) \<noteq> None)"
proof (intro conjI impI)
  show "scheduler (init m f p rs) = None"
    by (simp add: init_def)
next
  assume ret: "fst (fit rt self X y fit_params) = Inr s'"
  then show "scheduler s' \<noteq> None"
    by (rule fit_returns_cases) simp
  from ret show "scheduler (snd (fit rt self X y fit_params)) \<noteq> None"
    by (rule fit_returns_cases) simp
qed

theorem scheduler_absent_then_present_witness:
  "scheduler (init ''min'' (1 / 2) 10 (None :: nat option)
                :: (real, int, nat, plateau_scheduler) ReduceLROnPlateau) = None \<and>
   fst (fit torch_runtime (init ''min'' (1 / 2) 10 (None :: nat option)) ([] :: nat list)
          ([] :: nat list) [''optimizer'' \<mapsto> Optimizer 3])
     = Inr \<lparr> mode = ''min'', factor = 1 / 2, patience = 10, random_state = None,
             scheduler = Some (PlateauScheduler (Optimizer 3) ''min'' (1 / 2) 10) \<rparr> \<and>
   scheduler (snd (fit torch_runtime (init ''min'' (1 / 2) 10 (None :: nat option)) ([] :: nat list)
                     ([] :: nat list) [''optimizer'' \<mapsto> Optimizer 3])) \<noteq> None"
proof -
  let ?self = "init ''min'' (1 / 2) 10 (None :: nat option)
                 :: (real, int, nat, plateau_scheduler) ReduceLROnPlateau"
  let ?s' = "\<lparr> mode = ''min'', factor = 1 / 2, patience = 10, random_state = None,
               scheduler = Some (PlateauScheduler (Optimizer 3) ''min'' (1 / 2) 10) \<rparr>
               :: (real, int, nat, plateau_scheduler) ReduceLROnPlateau"
  have ret: "fst (fit torch_runtime ?self ([] :: nat list) ([] :: nat list)
                    [''optimizer'' \<mapsto> Optimizer 3]) = Inr ?s'"
    by (simp add: fit_def Let_def torch_runtime_def torch_ReduceLROnPlateau_def init_def)
  from scheduler_absent_then_present
         [of "''min''" "1 / 2 :: real" "10 :: int" "None :: nat option" torch_runtime ?self
             "[] :: nat list" "[] :: nat list" "[''optimizer'' \<mapsto> Optimizer 3]" ?s'] ret
  show ?thesis
    by simp
qed

text \<open>
  C10, as the claim states it, fails: a later call of \<open>fit\<close> with the key
  \<open>optimizer\<close> in \<open>fit_params\<close> does not always succeed. On an object that an
  earlier \<open>fit\<close> has returned, a later call whose \<open>fit_params\<close> hold \<open>None\<close>
  under that key passes the check of line 63, the constructor refuses the value, its
  exception leaves \<open>fit\<close>, and the handle of the earlier call stays in the object.
\<close>

theorem refit_refused_optimizer:
  "fst (fit torch_runtime (init ''min'' (1 / 2) 10 (None :: nat option)) ([] :: nat list)
          ([] :: nat list) [''optimizer'' \<mapsto> Optimizer 0])
     = Inr \<lparr> mode = ''min'', factor = 1 / 2, patience = 10, random_state = None,
             scheduler = Some (PlateauScheduler (Optimizer 0) ''min'' (1 / 2) 10) \<rparr> \<and>
   fit torch_runtime
     \<lparr> mode = ''min'', factor = 1 / 2, patience = 10, random_state = (None :: nat option),
       scheduler = Some (PlateauScheduler (Optimizer 0) ''min'' (1 / 2) 10) \<rparr>
     [4 :: nat] [5 :: nat] [''optimizer'' \<mapsto> NoneObject]
   = (Inl (Propagated (IsNotAnOptimizer NoneObject)),
      \<lparr> mode = ''min'', factor = 1 / 2, patience = 10, random_state = None,
        scheduler = Some (PlateauScheduler (Optimizer 0) ''min'' (1 / 2) 10) \<rparr>)"
  by (simp add: fit_def Let_def torch_runtime_def torch_ReduceLROnPlateau_def init_def)

text \<open>
  C10, amended: \<open>fit\<close> may be called again on an object that an earlier \<open>fit\<close> has
  returned. In a later call with an optimizer in \<open>fit_params\<close> the check of line 63
  passes and the two coercions return what they returned in the earlier call; every
  such call for which the library's constructor returns succeeds, the handle built for
  the optimizer of that call takes the place of the earlier handle, and the object is
  what the object before the earlier call would be with the new handle: nothing of
  the earlier handle is left.
\<close>

theorem refit_replaces_handle:
  assumes "fst (fit rt self X y fit_params) = Inr s1"
    and "fit_params' ''optimizer'' = Some optimizer'"
  shows "\<exists>f p. py_float rt (factor s1) = Inr f \<and> py_int rt (patience s1) = Inr p \<and>
           scheduler s1 \<noteq> None \<and>
           (\<forall>h'. lr_scheduler_ReduceLROnPlateau rt optimizer' (mode s1) f p = Inr h' \<longrightarrow>
              fit rt s1 X' y' fit_params' =
                (Inr (s1\<lparr>scheduler := Some h'\<rparr>), s1\<lparr>scheduler := Some h'\<rparr>) \<and>
              s1\<lparr>scheduler := Some h'\<rparr> = self\<lparr>scheduler := Some h'\<rparr>)"
proof -
  from assms(1) obtain f p h where
    f: "py_float rt (factor self) = Inr f" and p: "py_int rt (patience self) = Inr p"
    and s1: "s1 = self\<lparr>scheduler := Some h\<rparr>"
    by (rule fit_returns_cases)
  have "fit rt s1 X' y' fit_params' =
          (Inr (s1\<lparr>scheduler := Some h'\<rparr>), s1\<lparr>scheduler := Some h'\<rparr>)"
    if "lr_scheduler_ReduceLROnPlateau rt optimizer' (mode s1) f p = Inr h'" for h'
    using that assms(2) f p by (simp add: fit_def Let_def s1)
  with f p s1 show ?thesis
    by auto
qed

theorem refit_replaces_handle_witness:
  "fst (fit torch_runtime (init ''min'' (1 / 2) 10 (None :: nat option)) ([] :: nat list)
          ([] :: nat list) [''optimizer'' \<mapsto> Optimizer 0])
     = Inr \<lparr> mode = ''min'', factor = 1 / 2, patience = 10, random_state = None,
             scheduler = Some (PlateauScheduler (Optimizer 0) ''min'' (1 / 2) 10) \<rparr> \<and>
   [''optimizer'' \<mapsto> Optimizer 1] ''optimizer'' = Some (Optimizer 1) \<and>
   lr_scheduler_ReduceLROnPlateau torch_runtime (Optimizer 1) ''min'' (1 / 2) 10
     = Inr (PlateauScheduler (Optimizer 1) ''min'' (1 / 2) 10) \<and>
   fit torch_runtime
     \<lparr> mode = ''min'', factor = 1 / 2, patience = 10, random_state = (None :: nat option),
       scheduler = Some (PlateauScheduler (Optimizer 0) ''min'' (1 / 2) 10) \<rparr>
     [4 :: nat] [5 :: nat] [''optimizer'' \<mapsto> Optimizer 1]
   = (Inr \<lparr> mode = ''min'', factor = 1 / 2, patience = 10, random_state = None,
            scheduler = Some (PlateauScheduler (Optimizer 1) ''min'' (1 / 2) 10) \<rparr>,
      \<lparr> mode = ''min'', factor = 1 / 2, patience = 10, random_state = None,
        scheduler = Some (PlateauScheduler (Optimizer 1) ''min'' (1 / 2) 10) \<rparr>)"
proof -
  let ?self = "init ''min'' (1 / 2) 10 (None :: nat option)
                 :: (real, int, nat, plateau_scheduler) ReduceLROnPlateau"
  let ?s1 = "\<lparr> mode = ''min'', factor = 1 / 2, patience = 10, random_state = None,
               scheduler = Some (PlateauScheduler (Optimizer 0) ''min'' (1 / 2) 10) \<rparr>
               :: (real, int, nat, plateau_scheduler) ReduceLROnPlateau"
  let ?h' = "PlateauScheduler (Optimizer 1) ''min'' (1 / 2) 10"
  let ?fp' = "[''optimizer'' \<mapsto> Optimizer 1]"
  have first: "fst (fit torch_runtime ?self ([] :: nat list) ([] :: nat list)
                      [''optimizer'' \<mapsto> Optimizer 0]) = Inr ?s1"
    by (simp add: fit_def Let_def torch_runtime_def torch_ReduceLROnPlateau_def init_def)
  have k: "?fp' ''optimizer'' = Some (Optimizer 1)"
    by simp
  have c: "lr_scheduler_ReduceLROnPlateau torch_runtime (Optimizer 1) ''min'' (1 / 2) 10 = Inr ?h'"
    by (simp add: torch_runtime_def torch_ReduceLROnPlateau_def)
  from refit_replaces_handle
         [where fit_params' = ?fp' and optimizer' = "Optimizer 1"
            and X' = "[4 :: nat]" and y' = "[5 :: nat]", OF first k]
  obtain f p where
    f: "py_float torch_runtime (factor ?s1) = Inr f" and p: "py_int torch_runtime (patience ?s1) = Inr p"
    and later: "\<And>h'. lr_scheduler_ReduceLROnPlateau torch_runtime (Optimizer 1) (mode ?s1) f p = Inr h' \<Longrightarrow>
              fit torch_runtime ?s1 [4 :: nat] [5 :: nat] ?fp' =
                (Inr (?s1\<lparr>scheduler := Some h'\<rparr>), ?s1\<lparr>scheduler := Some h'\<rparr>)"
    by blast
  have fv: "f = 1 / 2"
    using f by (simp add: torch_runtime_def)
  have pv: "p = 10"
    using p by (simp add: torch_runtime_def)
  have c': "lr_scheduler_ReduceLROnPlateau torch_runtime (Optimizer 1) (mode ?s1) f p = Inr ?h'"
    unfolding fv pv by (simp add: torch_runtime_def torch_ReduceLROnPlateau_def)
  from later [OF c'] first k c show ?thesis
    by simp
qed

subsection \<open>What fit reads and what it writes\<close>

text \<open>
  C9: the outcome of \<open>fit\<close> does not depend on the features and the labels. Two calls
  on objects in the same state with the same \<open>fit_params\<close> give the same pair of
  reply and state after the call, whatever \<open>X\<close> and \<open>y\<close> are in each: the same
  exception, or the same object with the same handle.
\<close>

theorem fit_ignores_features_and_labels:
  "fit rt self X y fit_params = fit rt self X' y' fit_params"
  by (simp add: fit_def)

text \<open>
  C8: the mode, the factor, the patience and the random state of an object are those
  given to \<open>__init__\<close> after any sequence of calls of \<open>fit\<close>, \<open>transform\<close>,
  \<open>get_properties\<close> and \<open>get_hyperparameter_search_space\<close>, failed calls of \<open>fit\<close>
  among them; and the state a call of \<open>fit\<close> leaves differs from the state before it
  in the \<open>scheduler\<close> attribute at most.
\<close>

theorem configuration_never_mutated:
  "mode (run rt (init m f p rs) calls) = m \<and>
   factor (run rt (init m f p rs) calls) = f \<and>
   patience (run rt (init m f p rs) calls) = p \<and>
   random_state (run rt (init m f p rs) calls) = rs \<and>
   snd (fit rt self X y fit_params) =
     self\<lparr>scheduler := scheduler (snd (fit rt self X y fit_params))\<rparr>"
proof -
  have "mode (init m f p rs) = m" "factor (init m f p rs) = f"
       "patience (init m f p rs) = p" "random_state (init m f p rs) = rs"
    by (simp_all add: init_def)
  with run_keeps_configuration [of rt "init m f p rs" calls]
       fit_state_frame [of rt self X y fit_params]
  show ?thesis
    by simp
qed

subsection \<open>transform\<close>

text \<open>
  C6: \<open>transform\<close> returns its argument unchanged, for every argument (an empty
  array or not), every configuration of the object, and before as well as after a call
  of \<open>fit\<close>; the call leaves the object as it was.
\<close>

theorem transform_identity:
  "transform self X = X \<and>
   transform (snd (fit rt self X' y fit_params)) X = X \<and>
   invoke rt self (CallTransform X) = (TransformReply X, self)"
  by (simp add: transform_def)

subsection \<open>The static methods\<close>

text \<open>
  C7: \<open>get_properties\<close> returns one fixed dictionary with the two keys \<open>shortname\<close>
  and \<open>name\<close>. The value is the same for every \<open>dataset_properties\<close> argument and
  for every object the method is called on, and the call leaves that object as it was.
\<close>

theorem get_properties_fixed:
  "get_properties dp = get_properties dp' \<and>
   dom (get_properties dp) = {''shortname'', ''name''} \<and>
   get_properties dp ''shortname'' = Some ''CosineAnnealingWarmRestarts'' \<and>
   get_properties dp ''name'' = Some ''Cosine Annealing WarmRestarts'' \<and>
   invoke rt self (CallGetProperties dp) = (PropertiesReply (get_properties None), self)"
  by (auto simp: get_properties_def)

text \<open>
  C5: \<open>get_hyperparameter_search_space\<close> returns a configuration space, for every
  \<open>dataset_properties\<close> argument, \<open>None\<close> and the empty dictionary among them. Its
  hyperparameters are exactly three: the categorical \<open>mode\<close> over \<open>min\<close> and
  \<open>max\<close>, the integer \<open>patience\<close> from 5 to 20 with default 10, and the float
  \<open>factor\<close> from 0.01 to 0.9 with default 0.1.
\<close>

theorem search_space_contents:
  "\<exists>cs. get_hyperparameter_search_space dp = Inr cs \<and>
        get_hyperparameter_search_space None = Inr cs \<and>
        get_hyperparameter_search_space (Some Map.empty) = Inr cs \<and>
        dom cs = {''mode'', ''patience'', ''factor''} \<and>
        cs ''mode'' = Some (CategoricalHyperparameter ''mode'' [''min'', ''max'']) \<and>
        cs ''patience'' = Some (UniformIntegerHyperparameter ''patience'' 5 20 10) \<and>
        cs ''factor'' = Some (UniformFloatHyperparameter ''factor'' (1 / 100) (9 / 10) (1 / 10))"
  by (auto simp: get_hyperparameter_search_space_def ConfigurationSpace_def
                 add_hyperparameter_def Let_def)

end
